theory Spec2Isabelle
  imports Complex_Main
begin

section \<open>Numbers\<close>

text \<open>
  The program computes with Python floats and numpy float64 values. They are modelled by
  \<open>fval\<close>: a finite value is an exact real number, and the three special values of the
  format (plus and minus infinity, not-a-number) are kept, because the program relies on
  them: a comparison with not-a-number is false, \<open>x / 0\<close> on numpy values is an infinity or
  not-a-number and not an exception. Finite arithmetic is exact: rounding, overflow of a
  finite result and the sign of zero are not part of the model.
\<close>

datatype fval = Fin real | PInf | NInf | NaN

fun fneg :: "fval \<Rightarrow> fval" where
  "fneg (Fin a) = Fin (- a)"
| "fneg PInf = NInf"
| "fneg NInf = PInf"
| "fneg NaN = NaN"

fun fadd :: "fval \<Rightarrow> fval \<Rightarrow> fval" where
  "fadd (Fin a) (Fin b) = Fin (a + b)"
| "fadd NaN _ = NaN"
| "fadd _ NaN = NaN"
| "fadd PInf NInf = NaN"
| "fadd NInf PInf = NaN"
| "fadd PInf _ = PInf"
| "fadd _ PInf = PInf"
| "fadd NInf _ = NInf"
| "fadd _ NInf = NInf"

definition fsub :: "fval \<Rightarrow> fval \<Rightarrow> fval" where
  "fsub a b = fadd a (fneg b)"

fun fmul :: "fval \<Rightarrow> fval \<Rightarrow> fval" where
  "fmul (Fin a) (Fin b) = Fin (a * b)"
| "fmul NaN _ = NaN"
| "fmul _ NaN = NaN"
| "fmul (Fin a) PInf = (if a = 0 then NaN else if 0 < a then PInf else NInf)"
| "fmul (Fin a) NInf = (if a = 0 then NaN else if 0 < a then NInf else PInf)"
| "fmul PInf (Fin b) = (if b = 0 then NaN else if 0 < b then PInf else NInf)"
| "fmul NInf (Fin b) = (if b = 0 then NaN else if 0 < b then NInf else PInf)"
| "fmul PInf PInf = PInf"
| "fmul NInf NInf = PInf"
| "fmul PInf NInf = NInf"
| "fmul NInf PInf = NInf"

text \<open>Division as numpy does it: a zero divisor gives an infinity or not-a-number.\<close>

fun fdiv :: "fval \<Rightarrow> fval \<Rightarrow> fval" where
  "fdiv (Fin a) (Fin b) =
     (if b = 0 then (if a = 0 then NaN else if 0 < a then PInf else NInf) else Fin (a / b))"
| "fdiv NaN _ = NaN"
| "fdiv _ NaN = NaN"
| "fdiv (Fin a) PInf = Fin 0"
| "fdiv (Fin a) NInf = Fin 0"
| "fdiv PInf (Fin b) = (if 0 \<le> b then PInf else NInf)"
| "fdiv NInf (Fin b) = (if 0 \<le> b then NInf else PInf)"
| "fdiv PInf PInf = NaN"
| "fdiv PInf NInf = NaN"
| "fdiv NInf PInf = NaN"
| "fdiv NInf NInf = NaN"

fun fsqrt :: "fval \<Rightarrow> fval" where
  "fsqrt (Fin a) = (if a < 0 then NaN else Fin (sqrt a))"
| "fsqrt PInf = PInf"
| "fsqrt NInf = NaN"
| "fsqrt NaN = NaN"

text \<open>The comparisons \<open>==\<close>, \<open><\<close>, \<open>>\<close>, \<open><=\<close>, \<open>>=\<close>, \<open>!=\<close>: false on not-a-number,
  except \<open>!=\<close>, which is the negation of \<open>==\<close>.\<close>

fun feq :: "fval \<Rightarrow> fval \<Rightarrow> bool" where
  "feq (Fin a) (Fin b) = (a = b)"
| "feq PInf PInf = True"
| "feq NInf NInf = True"
| "feq _ _ = False"

fun flt :: "fval \<Rightarrow> fval \<Rightarrow> bool" where
  "flt (Fin a) (Fin b) = (a < b)"
| "flt NaN _ = False"
| "flt _ NaN = False"
| "flt _ NInf = False"
| "flt PInf _ = False"
| "flt NInf _ = True"
| "flt _ PInf = True"

definition fgt :: "fval \<Rightarrow> fval \<Rightarrow> bool" where
  "fgt a b = flt b a"

definition fle :: "fval \<Rightarrow> fval \<Rightarrow> bool" where
  "fle a b = (flt a b \<or> feq a b)"

definition fge :: "fval \<Rightarrow> fval \<Rightarrow> bool" where
  "fge a b = fle b a"

definition fne :: "fval \<Rightarrow> fval \<Rightarrow> bool" where
  "fne a b = (\<not> feq a b)"

definition isnan :: "fval \<Rightarrow> bool" where
  "isnan a = (a = NaN)"

definition isfinite :: "fval \<Rightarrow> bool" where
  "isfinite a = (case a of Fin _ \<Rightarrow> True | _ \<Rightarrow> False)"

section \<open>Errors\<close>

text \<open>The exceptions the modelled code can raise; \<open>KeyError\<close> carries the missing label.\<close>

datatype error = KeyError string | ValueError | OverflowError | IndexError

text \<open>\<open>int(x)\<close> on a float: truncation towards zero; an infinity raises OverflowError,
  not-a-number raises ValueError.\<close>

definition trunc :: "real \<Rightarrow> int" where
  "trunc r = (if 0 \<le> r then \<lfloor>r\<rfloor> else \<lceil>r\<rceil>)"

fun py_int :: "fval \<Rightarrow> error + int" where
  "py_int (Fin r) = Inr (trunc r)"
| "py_int NaN = Inl ValueError"
| "py_int PInf = Inl OverflowError"
| "py_int NInf = Inl OverflowError"

section \<open>Data frames\<close>

text \<open>
  A DataFrame with numeric columns: the index labels (dates, as day numbers) and the
  columns by name, each as long as the index. \<open>iterrows\<close> yields, for each position, the
  label and the row as a Series from column name to value.
\<close>

type_synonym date = nat

type_synonym row = "string \<rightharpoonup> fval"

record frame =
  index :: "date list"
  cols :: "string \<rightharpoonup> fval list"

definition row_at :: "frame \<Rightarrow> nat \<Rightarrow> row" where
  "row_at f i = (\<lambda>c. map_option (\<lambda>xs. xs ! i) (cols f c))"

definition iterrows :: "frame \<Rightarrow> (date \<times> row) list" where
  "iterrows f = map (\<lambda>i. (index f ! i, row_at f i)) [0..<length (index f)]"

text \<open>\<open>row[k]\<close>: KeyError when the label is missing.\<close>

definition getitem :: "row \<Rightarrow> string \<Rightarrow> error + fval" where
  "getitem r k = (case r k of None \<Rightarrow> Inl (KeyError k) | Some v \<Rightarrow> Inr v)"

section \<open>The backtest loop (TradingStrategy.backtest)\<close>

datatype side = Buy | Sell

record trade =
  trade_date :: date
  trade_type :: side
  trade_price :: fval
  trade_shares :: int
  trade_value :: fval

record state =
  cash :: fval
  position :: int
  trades :: "trade list"
  portfolio_value :: "(date \<times> fval) list"

text \<open>The trigger of the day: the \<open>position\<close> column when the row has one, else \<open>signal\<close>.\<close>

definition trigger :: "row \<Rightarrow> error + fval" where
  "trigger r = (if ''position'' \<in> dom r then getitem r ''position'' else getitem r ''signal'')"

text \<open>The body of \<open>if cash > 0\<close> under a buy signal.\<close>

definition buy :: "state \<Rightarrow> date \<Rightarrow> row \<Rightarrow> error + state" where
  "buy s d r =
     (case getitem r ''close'' of Inl e \<Rightarrow> Inl e
      | Inr c \<Rightarrow>
        (case py_int (fdiv (cash s) c) of Inl e \<Rightarrow> Inl e
         | Inr shares \<Rightarrow>
           (let cost = fmul (Fin (of_int shares)) c
            in Inr (s\<lparr>cash := fsub (cash s) cost,
                      position := position s + shares,
                      trades := trades s @
                        [\<lparr>trade_date = d, trade_type = Buy, trade_price = c,
                          trade_shares = shares, trade_value = cost\<rparr>]\<rparr>))))"

text \<open>The body of \<open>if position > 0\<close> under a sell signal.\<close>

definition sell :: "state \<Rightarrow> date \<Rightarrow> row \<Rightarrow> error + state" where
  "sell s d r =
     (case getitem r ''close'' of Inl e \<Rightarrow> Inl e
      | Inr c \<Rightarrow>
        (let v = fmul (Fin (of_int (position s))) c
         in Inr (s\<lparr>cash := fadd (cash s) v,
                   trades := trades s @
                     [\<lparr>trade_date = d, trade_type = Sell, trade_price = c,
                       trade_shares = position s, trade_value = v\<rparr>],
                   position := 0\<rparr>)))"

text \<open>The signal dispatch of one day.\<close>

definition trade_on :: "state \<Rightarrow> date \<Rightarrow> row \<Rightarrow> fval \<Rightarrow> error + state" where
  "trade_on s d r sg =
     (if feq sg (Fin 1) then (if fgt (cash s) (Fin 0) then buy s d r else Inr s)
      else if feq sg (Fin (- 1)) then (if 0 < position s then sell s d r else Inr s)
      else Inr s)"

text \<open>Appending the day's portfolio value \<open>cash + position * close\<close>.\<close>

definition record_value :: "state \<Rightarrow> date \<Rightarrow> row \<Rightarrow> error + state" where
  "record_value s d r =
     (case getitem r ''close'' of Inl e \<Rightarrow> Inl e
      | Inr c \<Rightarrow>
        Inr (s\<lparr>portfolio_value := portfolio_value s @
                 [(d, fadd (cash s) (fmul (Fin (of_int (position s))) c))]\<rparr>))"

text \<open>One iteration of the loop over \<open>strategy_data.iterrows()\<close>.\<close>

definition backtest_step :: "state \<Rightarrow> date \<times> row \<Rightarrow> error + state" where
  "backtest_step s dr =
     (case dr of (d, r) \<Rightarrow>
       (case trigger r of Inl e \<Rightarrow> Inl e
        | Inr sg \<Rightarrow>
          (case trade_on s d r sg of Inl e \<Rightarrow> Inl e
           | Inr s' \<Rightarrow> record_value s' d r)))"

fun backtest_loop :: "state \<Rightarrow> (date \<times> row) list \<Rightarrow> error + state" where
  "backtest_loop s [] = Inr s"
| "backtest_loop s (dr # rest) =
     (case backtest_step s dr of Inl e \<Rightarrow> Inl e | Inr s' \<Rightarrow> backtest_loop s' rest)"

definition init_state :: "fval \<Rightarrow> state" where
  "init_state initial_cash =
     \<lparr>cash = initial_cash, position = 0, trades = [], portfolio_value = []\<rparr>"

section \<open>Series operations of the library\<close>

text \<open>
  The pandas operations the program calls, on a column as a list of values.
  \<open>shift(1)\<close> moves every value one place down and puts not-a-number first;
  \<open>diff()\<close> is \<open>x - x.shift(1)\<close>; \<open>pct_change()\<close> is \<open>x / x.shift(1) - 1\<close>
  (missing values are not forward-filled first; versions that pad them differ
  only when a portfolio value is not-a-number).
\<close>

definition shift1 :: "fval list \<Rightarrow> fval list" where
  "shift1 xs = (case xs of [] \<Rightarrow> [] | _ # _ \<Rightarrow> NaN # butlast xs)"

definition diff :: "fval list \<Rightarrow> fval list" where
  "diff xs = map2 fsub xs (shift1 xs)"

definition pct_change :: "fval list \<Rightarrow> fval list" where
  "pct_change xs = map2 (\<lambda>x p. fsub (fdiv x p) (Fin 1)) xs (shift1 xs)"

definition fsum :: "fval list \<Rightarrow> fval" where
  "fsum xs = foldl fadd (Fin 0) xs"

text \<open>\<open>mean()\<close> and \<open>std()\<close> skip not-a-number; \<open>std()\<close> is the sample deviation
  (\<open>ddof = 1\<close>) and is not-a-number on fewer than two values.\<close>

definition notna :: "fval list \<Rightarrow> fval list" where
  "notna xs = filter (\<lambda>x. \<not> isnan x) xs"

definition mean :: "fval list \<Rightarrow> fval" where
  "mean xs = (let vs = notna xs
              in if vs = [] then NaN else fdiv (fsum vs) (Fin (of_nat (length vs))))"

definition std :: "fval list \<Rightarrow> fval" where
  "std xs = (let vs = notna xs; n = length vs
             in if n \<le> 1 then NaN
                else (let avg = fdiv (fsum vs) (Fin (of_nat n));
                          sqr = map (\<lambda>x. fmul (fsub avg x) (fsub avg x)) vs
                      in fsqrt (fdiv (fsum sqr) (Fin (of_nat (n - 1))))))"

text \<open>\<open>cummax()\<close>: the running maximum; a not-a-number entry stays and is skipped.\<close>

fun cummax_from :: "fval option \<Rightarrow> fval list \<Rightarrow> fval list" where
  "cummax_from acc [] = []"
| "cummax_from acc (x # xs) =
     (if isnan x then NaN # cummax_from acc xs
      else (let m = (case acc of None \<Rightarrow> x | Some a \<Rightarrow> if fgt x a then x else a)
            in m # cummax_from (Some m) xs))"

definition cummax :: "fval list \<Rightarrow> fval list" where
  "cummax xs = cummax_from None xs"

definition fmin :: "fval list \<Rightarrow> fval" where
  "fmin xs = (case notna xs of [] \<Rightarrow> NaN
              | v # vs \<Rightarrow> foldl (\<lambda>a b. if flt b a then b else a) v vs)"

text \<open>\<open>iloc[-1]\<close>: IndexError on an empty series.\<close>

definition iloc_last :: "'a list \<Rightarrow> error + 'a" where
  "iloc_last xs = (if xs = [] then Inl IndexError else Inr (last xs))"

text \<open>
  \<open>rolling(window=w).mean()\<close>: a negative window is refused with ValueError; the window
  of a position is its last \<open>w\<close> values up to and including it; infinities count as
  missing; the mean is defined when the window holds at least \<open>w\<close> (the default
  \<open>min_periods\<close>) and at least one value.
\<close>

definition window_mean :: "nat \<Rightarrow> fval list \<Rightarrow> fval" where
  "window_mean w xs =
     (let obs = filter isfinite (drop (length xs - w) xs)
      in if w \<le> length obs \<and> obs \<noteq> [] then fdiv (fsum obs) (Fin (of_nat (length obs)))
         else NaN)"

definition rolling_mean :: "int \<Rightarrow> fval list \<Rightarrow> error + fval list" where
  "rolling_mean w xs =
     (if w < 0 then Inl ValueError
      else Inr (map (\<lambda>i. window_mean (nat w) (take (Suc i) xs)) [0..<length xs]))"

text \<open>
  \<open>ewm(span=n, adjust=False).mean()\<close>: the first output is the first value; afterwards
  \<open>y = (1 - \<alpha>) * y + \<alpha> * x\<close> with \<open>\<alpha> = 2 / (n + 1)\<close>. Over a missing value the
  output is carried and the old weight decays; the next value is averaged with the
  decayed weight.
\<close>

fun ewm_go :: "real \<Rightarrow> fval \<Rightarrow> real \<Rightarrow> fval list \<Rightarrow> fval list" where
  "ewm_go alpha weighted old_wt [] = []"
| "ewm_go alpha weighted old_wt (cur # rest) =
     (if \<not> isnan weighted then
        (let old_wt' = old_wt * (1 - alpha)
         in if \<not> isnan cur then
              (let w' = (if fne weighted cur
                         then fdiv (fadd (fmul (Fin old_wt') weighted) (fmul (Fin alpha) cur))
                                   (Fin (old_wt' + alpha))
                         else weighted)
               in w' # ewm_go alpha w' 1 rest)
            else weighted # ewm_go alpha weighted old_wt' rest)
      else if \<not> isnan cur then cur # ewm_go alpha cur old_wt rest
      else weighted # ewm_go alpha weighted old_wt rest)"

text \<open>Before the recursion an infinite value is replaced by not-a-number, as for the
  rolling window: it counts as missing.\<close>

definition inf_to_nan :: "fval \<Rightarrow> fval" where
  "inf_to_nan x = (if isfinite x then x else NaN)"

definition ewm_mean :: "real \<Rightarrow> fval list \<Rightarrow> fval list" where
  "ewm_mean spn xs =
     (case map inf_to_nan xs of [] \<Rightarrow> []
      | x # rest \<Rightarrow> x # ewm_go (2 / (spn + 1)) x 1 rest)"

text \<open>\<open>s.loc[mask] = v\<close> on a column.\<close>

definition loc_set :: "fval list \<Rightarrow> bool list \<Rightarrow> fval \<Rightarrow> fval list" where
  "loc_set xs msk v = map2 (\<lambda>x m. if m then v else x) xs msk"

text \<open>\<open>frame[k]\<close> (KeyError when the column is missing) and \<open>frame[k] = xs\<close>.\<close>

definition getcol :: "frame \<Rightarrow> string \<Rightarrow> error + fval list" where
  "getcol f k = (case cols f k of None \<Rightarrow> Inl (KeyError k) | Some xs \<Rightarrow> Inr xs)"

definition setcol :: "frame \<Rightarrow> string \<Rightarrow> fval list \<Rightarrow> frame" where
  "setcol f k xs = f\<lparr>cols := (cols f)(k \<mapsto> xs)\<rparr>"

text \<open>\<open>str(n)\<close> of an integer, for the column names \<open>f'MA{period}'\<close>, \<open>f'RSI{period}'\<close>.\<close>

fun digits10 :: "nat \<Rightarrow> string" where
  "digits10 n =
     (if n < 10 then [''0123456789'' ! n]
      else digits10 (n div 10) @ [''0123456789'' ! (n mod 10)])"

definition str_int :: "int \<Rightarrow> string" where
  "str_int n = (if n < 0 then CHR ''-'' # digits10 (nat (- n)) else digits10 (nat n))"

section \<open>The summary statistics (TradingStrategy.backtest, after the loop)\<close>

record stats =
  initial_capital :: fval
  final_capital :: fval
  total_return :: fval
  annual_return :: fval
  volatility :: fval
  sharpe_ratio :: fval
  max_drawdown :: fval
  trade_count :: nat

record result =
  res_stats :: stats
  res_trades :: "trade list"
  res_portfolio_value :: "date \<rightharpoonup> fval"

text \<open>The expression of \<open>sharpe_ratio\<close>, on the values of \<open>returns.mean()\<close> and
  \<open>returns.std()\<close>.\<close>

definition sharpe_ratio_of :: "fval \<Rightarrow> fval \<Rightarrow> fval" where
  "sharpe_ratio_of m sd =
     (if fne sd (Fin 0) then fdiv (fmul m (Fin 252)) (fmul sd (Fin (sqrt 252))) else Fin 0)"

definition sharpe :: "fval list \<Rightarrow> fval" where
  "sharpe returns = sharpe_ratio_of (mean returns) (std returns)"

text \<open>
  The frame of the recorded values is built from the list of records; with no record it
  has no column, and \<open>set_index('date')\<close> raises KeyError. The dictionary returned for
  the portfolio keeps, for a date that occurs twice, the later value.
\<close>

definition summary :: "fval \<Rightarrow> state \<Rightarrow> error + result" where
  "summary initial_cash s =
     (if portfolio_value s = [] then Inl (KeyError ''date'')
      else
        (let vals = map snd (portfolio_value s);
             returns = pct_change vals
         in case iloc_last vals of Inl e \<Rightarrow> Inl e
            | Inr final \<Rightarrow>
              Inr \<lparr>res_stats =
                     \<lparr>initial_capital = initial_cash,
                      final_capital = final,
                      total_return =
                        fmul (fdiv (fsub final initial_cash) initial_cash) (Fin 100),
                      annual_return = fmul (fmul (mean returns) (Fin 252)) (Fin 100),
                      volatility = fmul (fmul (std returns) (Fin (sqrt 252))) (Fin 100),
                      sharpe_ratio = sharpe returns,
                      max_drawdown =
                        fmul (fmin (map (\<lambda>x. fsub x (Fin 1)) (map2 fdiv vals (cummax vals))))
                             (Fin 100),
                      trade_count = length (trades s)\<rparr>,
                   res_trades = trades s,
                   res_portfolio_value = map_of (rev (portfolio_value s))\<rparr>))"

definition backtest :: "frame \<Rightarrow> fval \<Rightarrow> error + result" where
  "backtest strategy_data initial_cash =
     (case backtest_loop (init_state initial_cash) (iterrows strategy_data) of
        Inl e \<Rightarrow> Inl e
      | Inr s \<Rightarrow> summary initial_cash s)"

section \<open>The indicators (StockDataManager)\<close>

text \<open>The manager's \<open>historical_data\<close> is an argument; every operation works on
  a copy and returns it.\<close>

fun calculate_ma_loop :: "frame \<Rightarrow> frame \<Rightarrow> int list \<Rightarrow> error + frame" where
  "calculate_ma_loop historical_data result [] = Inr result"
| "calculate_ma_loop historical_data result (period # periods) =
     (case getcol historical_data ''close'' of Inl e \<Rightarrow> Inl e
      | Inr close \<Rightarrow>
        (case rolling_mean period close of Inl e \<Rightarrow> Inl e
         | Inr ma \<Rightarrow> calculate_ma_loop historical_data (setcol result (''MA'' @ str_int period) ma) periods))"

definition calculate_ma :: "frame \<Rightarrow> int list \<Rightarrow> error + frame" where
  "calculate_ma historical_data periods = calculate_ma_loop historical_data historical_data periods"

definition calculate_macd :: "frame \<Rightarrow> error + frame" where
  "calculate_macd historical_data =
     (case getcol historical_data ''close'' of Inl e \<Rightarrow> Inl e
      | Inr close \<Rightarrow>
        (let ema12 = ewm_mean 12 close;
             ema26 = ewm_mean 26 close;
             dif = map2 fsub ema12 ema26;
             dea = ewm_mean 9 dif;
             macd = map (fmul (Fin 2)) (map2 fsub dif dea)
         in Inr (setcol (setcol (setcol (setcol (setcol historical_data ''EMA12'' ema12) ''EMA26'' ema26)
                   ''DIF'' dif) ''DEA'' dea) ''MACD'' macd)))"

text \<open>The two averaged series of the RSI: \<open>delta.where(delta > 0, 0)\<close> and
  \<open>-delta.where(delta < 0, 0)\<close>, each under \<open>rolling(window=period).mean()\<close>.\<close>

definition rsi_gain :: "fval list \<Rightarrow> int \<Rightarrow> error + fval list" where
  "rsi_gain close period =
     rolling_mean period (map (\<lambda>d. if fgt d (Fin 0) then d else Fin 0) (diff close))"

definition rsi_loss :: "fval list \<Rightarrow> int \<Rightarrow> error + fval list" where
  "rsi_loss close period =
     rolling_mean period (map fneg (map (\<lambda>d. if flt d (Fin 0) then d else Fin 0) (diff close)))"

definition rsi_of :: "fval \<Rightarrow> fval \<Rightarrow> fval" where
  "rsi_of g l = fsub (Fin 100) (fdiv (Fin 100) (fadd (Fin 1) (fdiv g l)))"

definition calculate_rsi :: "frame \<Rightarrow> int \<Rightarrow> error + frame" where
  "calculate_rsi historical_data period =
     (case getcol historical_data ''close'' of Inl e \<Rightarrow> Inl e
      | Inr close \<Rightarrow>
        (case rsi_gain close period of Inl e \<Rightarrow> Inl e
         | Inr gain \<Rightarrow>
           (case rsi_loss close period of Inl e \<Rightarrow> Inl e
            | Inr loss \<Rightarrow>
              Inr (setcol historical_data (''RSI'' @ str_int period) (map2 rsi_of gain loss)))))"

section \<open>The strategies (TradingStrategy)\<close>

definition ma_cross_strategy :: "frame \<Rightarrow> int \<Rightarrow> int \<Rightarrow> error + frame" where
  "ma_cross_strategy historical_data short_period long_period =
     (case calculate_ma historical_data [short_period, long_period] of Inl e \<Rightarrow> Inl e
      | Inr ma_data \<Rightarrow>
        (let f0 = setcol ma_data ''signal'' (replicate (length (index ma_data)) (Fin 0))
         in case getcol f0 (''MA'' @ str_int short_period) of Inl e \<Rightarrow> Inl e
            | Inr ms \<Rightarrow>
              (case getcol f0 (''MA'' @ str_int long_period) of Inl e \<Rightarrow> Inl e
               | Inr ml \<Rightarrow>
                 (case getcol f0 ''signal'' of Inl e \<Rightarrow> Inl e
                  | Inr sg \<Rightarrow>
                    (let sg' = loc_set sg (map2 fgt ms ml) (Fin 1)
                     in Inr (setcol (setcol f0 ''signal'' sg') ''position'' (diff sg')))))))"

definition macd_strategy :: "frame \<Rightarrow> error + frame" where
  "macd_strategy historical_data =
     (case calculate_macd historical_data of Inl e \<Rightarrow> Inl e
      | Inr macd_data \<Rightarrow>
        (let f0 = setcol macd_data ''signal'' (replicate (length (index macd_data)) (Fin 0))
         in case getcol f0 ''DIF'' of Inl e \<Rightarrow> Inl e
            | Inr dif \<Rightarrow>
              (case getcol f0 ''DEA'' of Inl e \<Rightarrow> Inl e
               | Inr dea \<Rightarrow>
                 (case getcol f0 ''signal'' of Inl e \<Rightarrow> Inl e
                  | Inr sg \<Rightarrow>
                    (let golden = map2 (\<and>) (map2 fgt dif dea)
                                            (map2 fle (shift1 dif) (shift1 dea));
                         sg1 = loc_set sg golden (Fin 1);
                         dead = map2 (\<and>) (map2 flt dif dea)
                                          (map2 fge (shift1 dif) (shift1 dea));
                         sg2 = loc_set sg1 dead (Fin (- 1))
                     in Inr (setcol f0 ''signal'' sg2))))))"

definition rsi_strategy :: "frame \<Rightarrow> int \<Rightarrow> fval \<Rightarrow> fval \<Rightarrow> error + frame" where
  "rsi_strategy historical_data period overbought oversold =
     (case calculate_rsi historical_data period of Inl e \<Rightarrow> Inl e
      | Inr rsi_data \<Rightarrow>
        (let f0 = setcol rsi_data ''signal'' (replicate (length (index rsi_data)) (Fin 0))
         in case getcol f0 (''RSI'' @ str_int period) of Inl e \<Rightarrow> Inl e
            | Inr rsi \<Rightarrow>
              (case getcol f0 ''signal'' of Inl e \<Rightarrow> Inl e
               | Inr sg \<Rightarrow>
                 (let sg1 = loc_set sg (map (\<lambda>x. flt x oversold) rsi) (Fin 1);
                      sg2 = loc_set sg1 (map (\<lambda>x. fgt x overbought) rsi) (Fin (- 1))
                  in Inr (setcol f0 ''signal'' sg2)))))"

section \<open>Trade-log totals and example inputs\<close>

text \<open>The shares of all trades of one side in a trade log.\<close>

definition shares_sum :: "side \<Rightarrow> trade list \<Rightarrow> int" where
  "shares_sum sd ts = sum_list (map trade_shares (filter (\<lambda>t. trade_type t = sd) ts))"

text \<open>Three days, closes 10, 12, 8, signals buy, hold, sell.\<close>

definition ex_three_days :: frame where
  "ex_three_days =
     \<lparr>index = [1, 2, 3],
      cols = [''close'' \<mapsto> [Fin 10, Fin 12, Fin 8],
              ''signal'' \<mapsto> [Fin 1, Fin 0, Fin (- 1)]]\<rparr>"


text \<open>A long state with no cash left, and a row with a buy trigger.\<close>

definition ex_long_no_cash :: state where
  "ex_long_no_cash =
     \<lparr>cash = Fin 0, position = 10,
      trades = [\<lparr>trade_date = 1, trade_type = Buy, trade_price = Fin 10,
                 trade_shares = 10, trade_value = Fin 100\<rparr>],
      portfolio_value = [(1, Fin 100)]\<rparr>"


text \<open>Rows whose \<open>position\<close> column is not-a-number, and is 0, beside a buy \<open>signal\<close>.\<close>

definition ex_nan_row :: row where
  "ex_nan_row = [''close'' \<mapsto> Fin 12, ''signal'' \<mapsto> Fin 1, ''position'' \<mapsto> NaN]"

definition ex_zero_row :: row where
  "ex_zero_row = [''close'' \<mapsto> Fin 12, ''signal'' \<mapsto> Fin 1, ''position'' \<mapsto> Fin 0]"

text \<open>Prices only: no \<open>position\<close> and no \<open>signal\<close> column.\<close>

definition ex_prices_only :: frame where
  "ex_prices_only = \<lparr>index = [1, 2], cols = [''close'' \<mapsto> [Fin 10, Fin 12]]\<rparr>"

text \<open>A frame with its columns and no row.\<close>

definition ex_empty :: frame where
  "ex_empty = \<lparr>index = [], cols = [''close'' \<mapsto> [], ''signal'' \<mapsto> []]\<rparr>"

text \<open>Prices only and no row.\<close>

definition ex_empty_prices_only :: frame where
  "ex_empty_prices_only = \<lparr>index = [], cols = [''close'' \<mapsto> []]\<rparr>"



text \<open>Rising and constant closes, for the RSI.\<close>

definition ex_rising :: frame where
  "ex_rising = \<lparr>index = [1, 2, 3], cols = [''close'' \<mapsto> [Fin 10, Fin 11, Fin 12]]\<rparr>"

definition ex_constant :: frame where
  "ex_constant = \<lparr>index = [1, 2, 3], cols = [''close'' \<mapsto> [Fin 10, Fin 10, Fin 10]]\<rparr>"

section \<open>Properties of the backtest loop\<close>

lemmas loop_defs =
  backtest_step_def trigger_def getitem_def trade_on_def fgt_def buy_def sell_def
  record_value_def trunc_def fsub_def init_state_def Let_def domIff

lemmas frame_defs = iterrows_def row_at_def upt_rec

lemma backtest_loop_append:
  "backtest_loop s (xs @ ys) =
     (case backtest_loop s xs of Inl e \<Rightarrow> Inl e | Inr s' \<Rightarrow> backtest_loop s' ys)"
  by (induction xs arbitrary: s) (auto split: sum.splits)

lemma trunc_nonneg: "0 \<le> r \<Longrightarrow> 0 \<le> trunc r"
  by (simp add: trunc_def)

text \<open>The three ways a day can end without an exception.\<close>

lemma step_cases:
  assumes "backtest_step s (d, r) = Inr s'"
  obtains (buy) c n where "r ''close'' = Some c" "fgt (cash s) (Fin 0)"
      "py_int (fdiv (cash s) c) = Inr n"
      "s' = s\<lparr>cash := fsub (cash s) (fmul (Fin (of_int n)) c), position := position s + n,
             trades := trades s @ [\<lparr>trade_date = d, trade_type = Buy, trade_price = c,
                          trade_shares = n, trade_value = fmul (Fin (of_int n)) c\<rparr>],
             portfolio_value := portfolio_value s @
                [(d, fadd (fsub (cash s) (fmul (Fin (of_int n)) c))
                          (fmul (Fin (of_int (position s + n))) c))]\<rparr>"
    | (sell) c where "r ''close'' = Some c" "0 < position s"
      "s' = s\<lparr>cash := fadd (cash s) (fmul (Fin (of_int (position s))) c),
             trades := trades s @ [\<lparr>trade_date = d, trade_type = Sell, trade_price = c,
                          trade_shares = position s,
                          trade_value = fmul (Fin (of_int (position s))) c\<rparr>],
             position := 0,
             portfolio_value := portfolio_value s @
                [(d, fadd (fadd (cash s) (fmul (Fin (of_int (position s))) c))
                          (fmul (Fin 0) c))]\<rparr>"
    | (hold) c where "r ''close'' = Some c"
      "s' = s\<lparr>portfolio_value := portfolio_value s @
                [(d, fadd (cash s) (fmul (Fin (of_int (position s))) c))]\<rparr>"
  using assms
  by (auto simp: backtest_step_def trade_on_def buy_def sell_def record_value_def getitem_def
                 Let_def
           split: sum.splits option.splits if_splits)

lemma step_position_balance:
  assumes "backtest_step s (d, r) = Inr s'"
    and "position s = shares_sum Buy (trades s) - shares_sum Sell (trades s)"
  shows "position s' = shares_sum Buy (trades s') - shares_sum Sell (trades s')"
  using assms(1)
  by (cases rule: step_cases) (use assms(2) in \<open>simp_all add: shares_sum_def\<close>)

lemma step_position_nonneg:
  assumes "backtest_step s (d, r) = Inr s'" "r ''close'' = Some (Fin p)" "0 < p"
    "0 \<le> position s"
  shows "0 \<le> position s'"
  using assms(1)
proof (cases rule: step_cases)
  case (buy c n)
  from buy(1) assms(2) have c: "c = Fin p" by simp
  have "0 \<le> n"
  proof (cases "cash s")
    case (Fin x)
    with buy(2) have "0 < x" by (simp add: fgt_def)
    moreover from buy(3) c Fin assms(3) have "n = trunc (x / p)" by simp
    ultimately show ?thesis using assms(3) by (simp add: trunc_nonneg)
  qed (use buy(2,3) c assms(3) in \<open>simp_all add: fgt_def\<close>)
  then show ?thesis using buy(4) assms(4) by simp
qed (use assms(4) in simp_all)

lemma loop_position_balance:
  assumes "backtest_loop s rows = Inr s'"
    and "position s = shares_sum Buy (trades s) - shares_sum Sell (trades s)"
  shows "position s' = shares_sum Buy (trades s') - shares_sum Sell (trades s')"
  using assms
proof (induction rows arbitrary: s)
  case Nil
  then show ?case by simp
next
  case (Cons dr rows)
  obtain d r where dr: "dr = (d, r)" by (cases dr)
  from Cons.prems(1) dr obtain s1
    where s1: "backtest_step s (d, r) = Inr s1" "backtest_loop s1 rows = Inr s'"
    by (auto split: sum.splits)
  show ?case
    by (rule Cons.IH[OF s1(2) step_position_balance[OF s1(1) Cons.prems(2)]])
qed

lemma loop_position_nonneg:
  assumes "backtest_loop s rows = Inr s'"
    and "\<forall>dr \<in> set rows. \<exists>p. snd dr ''close'' = Some (Fin p) \<and> 0 < p"
    and "0 \<le> position s"
  shows "0 \<le> position s'"
  using assms
proof (induction rows arbitrary: s)
  case Nil
  then show ?case by simp
next
  case (Cons dr rows)
  obtain d r where dr: "dr = (d, r)" by (cases dr)
  from Cons.prems(1) dr obtain s1
    where s1: "backtest_step s (d, r) = Inr s1" "backtest_loop s1 rows = Inr s'"
    by (auto split: sum.splits)
  from Cons.prems(2) dr obtain p where p: "r ''close'' = Some (Fin p)" "0 < p" by auto
  have "0 \<le> position s1" by (rule step_position_nonneg[OF s1(1) p Cons.prems(3)])
  with Cons.IH[OF s1(2)] Cons.prems(2) show ?case by simp
qed

text \<open>What the rows of a frame hold.\<close>

lemma iterrows_close:
  assumes "cols f ''close'' = Some cl" "length cl = length (index f)" "dr \<in> set (iterrows f)"
  shows "snd dr ''close'' \<in> Some ` set cl"
  using assms by (auto simp: iterrows_def row_at_def)

lemma length_iterrows: "length (iterrows f) = length (index f)"
  by (simp add: iterrows_def)

lemma backtest_returns_loop:
  assumes "backtest f c = Inr r"
  shows "\<exists>s. backtest_loop (init_state c) (iterrows f) = Inr s \<and> res_trades r = trades s \<and>
           trade_count (res_stats r) = length (trades s)"
  using assms
  by (auto simp: backtest_def summary_def iloc_last_def Let_def split: sum.splits if_splits)

section \<open>Claims about the backtest loop\<close>

text \<open>
  C2. For a frame whose close prices are all positive finite numbers (the invariant of a
  SignalFrame) and any initial cash: whenever the loop has run \<open>k\<close> days without an
  exception, the position is not negative and equals the shares of all buy trades minus
  the shares of all sell trades of the trade log; at the end (\<open>k\<close> the number of rows)
  that log is the one \<open>backtest\<close> returns.
\<close>

theorem backtest_position_balance:
  assumes "cols f ''close'' = Some cl" "length cl = length (index f)"
    and "\<forall>x \<in> set cl. \<exists>p. x = Fin p \<and> 0 < p"
    and "k \<le> length (index f)"
    and "backtest_loop (init_state c) (take k (iterrows f)) = Inr s"
  shows "0 \<le> position s \<and>
         position s = shares_sum Buy (trades s) - shares_sum Sell (trades s) \<and>
         (k = length (index f) \<longrightarrow> (\<forall>r. backtest f c = Inr r \<longrightarrow> res_trades r = trades s))"
proof -
  have rows: "\<forall>dr \<in> set (take k (iterrows f)). \<exists>p. snd dr ''close'' = Some (Fin p) \<and> 0 < p"
  proof
    fix dr assume "dr \<in> set (take k (iterrows f))"
    then have m: "dr \<in> set (iterrows f)" by (rule in_set_takeD)
    from iterrows_close[OF assms(1,2) m] assms(3)
    show "\<exists>p. snd dr ''close'' = Some (Fin p) \<and> 0 < p" by auto
  qed
  have "0 \<le> position s"
    by (rule loop_position_nonneg[OF assms(5) rows]) (simp add: init_state_def)
  moreover have "position s = shares_sum Buy (trades s) - shares_sum Sell (trades s)"
    by (rule loop_position_balance[OF assms(5)]) (simp add: init_state_def shares_sum_def)
  moreover have "k = length (index f) \<longrightarrow>
      (\<forall>r. backtest f c = Inr r \<longrightarrow> res_trades r = trades s)"
  proof (intro impI allI)
    fix r assume k: "k = length (index f)" and r: "backtest f c = Inr r"
    from k have "take k (iterrows f) = iterrows f" by (simp add: length_iterrows)
    with assms(5) backtest_returns_loop[OF r] show "res_trades r = trades s" by auto
  qed
  ultimately show ?thesis by blast
qed

theorem backtest_position_balance_witness:
  "\<exists>s. backtest_loop (init_state (Fin 100)) (take 3 (iterrows ex_three_days)) = Inr s \<and>
     length (trades s) = 2 \<and> 0 \<le> position s \<and>
     position s = shares_sum Buy (trades s) - shares_sum Sell (trades s)"
proof -
  have run: "backtest_loop (init_state (Fin 100)) (take 3 (iterrows ex_three_days)) =
     Inr \<lparr>cash = Fin 80, position = 0,
          trades = [\<lparr>trade_date = 1, trade_type = Buy, trade_price = Fin 10,
                     trade_shares = 10, trade_value = Fin 100\<rparr>,
                    \<lparr>trade_date = 3, trade_type = Sell, trade_price = Fin 8,
                     trade_shares = 10, trade_value = Fin 80\<rparr>],
          portfolio_value = [(1, Fin 100), (2, Fin 120), (3, Fin 80)]\<rparr>"
    by (simp add: ex_three_days_def frame_defs loop_defs)
  from backtest_position_balance[of ex_three_days "[Fin 10, Fin 12, Fin 8]" 3, OF _ _ _ _ run]
  show ?thesis using run by (simp add: ex_three_days_def)
qed




text \<open>
  C5. A day whose trigger is not-a-number runs exactly as the same day with trigger 0: no
  trade is appended, cash and position are unchanged, and the day's value
  \<open>cash + position * close\<close> is recorded.
\<close>

theorem nan_trigger_holds:
  assumes "trigger r = Inr NaN" "trigger r0 = Inr (Fin 0)" "r0 ''close'' = r ''close''"
  shows "backtest_step s (d, r) = backtest_step s (d, r0) \<and>
         (\<forall>c. r ''close'' = Some c \<longrightarrow>
            backtest_step s (d, r) =
              Inr (s\<lparr>portfolio_value := portfolio_value s @
                       [(d, fadd (cash s) (fmul (Fin (of_int (position s))) c))]\<rparr>))"
  using assms
  by (simp add: backtest_step_def trade_on_def record_value_def getitem_def)

theorem nan_trigger_holds_witness:
  "backtest_step ex_long_no_cash (2, ex_nan_row) =
     backtest_step ex_long_no_cash (2, ex_zero_row) \<and>
   backtest_step ex_long_no_cash (2, ex_nan_row) =
     Inr (ex_long_no_cash\<lparr>portfolio_value := [(1, Fin 100), (2, Fin 120)]\<rparr>)"
proof -
  have "trigger ex_nan_row = Inr NaN" "trigger ex_zero_row = Inr (Fin 0)"
    "ex_zero_row ''close'' = ex_nan_row ''close''" "ex_nan_row ''close'' = Some (Fin 12)"
    by (simp_all add: ex_nan_row_def ex_zero_row_def trigger_def getitem_def domIff)
  from nan_trigger_holds[OF this(1,2,3), of ex_long_no_cash 2] this(4)
  have a: "backtest_step ex_long_no_cash (2, ex_nan_row) =
             backtest_step ex_long_no_cash (2, ex_zero_row)"
    and b: "backtest_step ex_long_no_cash (2, ex_nan_row) =
      Inr (ex_long_no_cash\<lparr>portfolio_value := portfolio_value ex_long_no_cash @
             [(2, fadd (cash ex_long_no_cash)
                       (fmul (Fin (of_int (position ex_long_no_cash))) (Fin 12)))]\<rparr>)"
    by blast+
  note b
  also have "ex_long_no_cash\<lparr>portfolio_value := portfolio_value ex_long_no_cash @
             [(2, fadd (cash ex_long_no_cash)
                       (fmul (Fin (of_int (position ex_long_no_cash))) (Fin 12)))]\<rparr>
        = ex_long_no_cash\<lparr>portfolio_value := [(1, Fin 100), (2, Fin 120)]\<rparr>"
    by (simp add: ex_long_no_cash_def)
  finally have "backtest_step ex_long_no_cash (2, ex_nan_row) =
     Inr (ex_long_no_cash\<lparr>portfolio_value := [(1, Fin 100), (2, Fin 120)]\<rparr>)" .
  with a show ?thesis by (rule conjI)
qed

section \<open>Claims about the failures of backtest\<close>

lemma iterrows_Cons:
  "index f \<noteq> [] \<Longrightarrow> \<exists>rest. iterrows f = (index f ! 0, row_at f 0) # rest"
  by (simp add: iterrows_def upt_conv_Cons)

text \<open>
  C4, as amended. For a frame with neither a \<open>position\<close> nor a \<open>signal\<close> column,
  \<open>backtest\<close> fails and returns no result. When the frame has a row, the exception is
  Python's KeyError for the label \<open>signal\<close>, raised by the lookup on the first row (the
  code has no exception type of its own for a missing signal). When it has no row, the
  exception is the KeyError for \<open>date\<close> that every frame with no row meets after the loop.
\<close>

theorem backtest_missing_trigger:
  assumes "cols f ''position'' = None" "cols f ''signal'' = None"
  shows "backtest f c = Inl (KeyError (if index f = [] then ''date'' else ''signal''))"
proof (cases "index f = []")
  case True
  then show ?thesis
    by (simp add: backtest_def iterrows_def init_state_def summary_def)
next
  case False
  from iterrows_Cons[OF False] obtain rest
    where it: "iterrows f = (index f ! 0, row_at f 0) # rest" ..
  have "trigger (row_at f 0) = Inl (KeyError ''signal'')"
    using assms by (simp add: trigger_def row_at_def getitem_def domIff)
  then show ?thesis using False it
    by (simp add: backtest_def backtest_step_def)
qed

theorem backtest_missing_trigger_witness:
  "backtest ex_rising (Fin 100) = Inl (KeyError ''signal'')"
  using backtest_missing_trigger[of ex_rising "Fin 100"]
  by (simp add: ex_rising_def)

text \<open>
  C4 as stated fails: no input makes the code raise a MissingSignalError. Prices of two
  days with no trigger column end in the KeyError for \<open>signal\<close>; prices with no row and
  no trigger column end in the KeyError for \<open>date\<close>, the failure of a frame with no row,
  which a frame that has a \<open>signal\<close> column meets as well.
\<close>

theorem backtest_missing_trigger_counterexample:
  "backtest ex_prices_only (Fin 100) = Inl (KeyError ''signal'') \<and>
   backtest ex_empty_prices_only (Fin 100) = Inl (KeyError ''date'') \<and>
   backtest ex_empty (Fin 100) = Inl (KeyError ''date'')"
  by (simp add: ex_prices_only_def ex_empty_prices_only_def ex_empty_def backtest_def
                frame_defs loop_defs summary_def)

text \<open>
  C10, as amended. For a frame with no row, \<open>backtest\<close> raises an exception after the
  loop, while it builds the statistics, and returns no result: the list of recorded
  values is empty, the frame made from it has no \<open>date\<close> column, and setting the index
  raises KeyError. The last element of the series of values is never indexed.
\<close>

theorem backtest_empty_frame:
  assumes "index f = []"
  shows "backtest f c = Inl (KeyError ''date'')"
  using assms by (simp add: backtest_def iterrows_def init_state_def summary_def)

theorem backtest_empty_frame_witness:
  "backtest ex_empty (Fin 0) = Inl (KeyError ''date'')"
  using backtest_empty_frame[of ex_empty "Fin 0"] by (simp add: ex_empty_def)

text \<open>
  C10 as stated fails: on the frame with no row the exception is not the IndexError of
  indexing the last element of an empty series, but the KeyError for \<open>date\<close>.
\<close>

theorem backtest_empty_frame_counterexample:
  "backtest ex_empty (Fin 100) \<noteq> Inl IndexError \<and>
   backtest ex_empty (Fin 100) = Inl (KeyError ''date'')"
  by (simp add: ex_empty_def backtest_def frame_defs loop_defs summary_def)

section \<open>Claims about the statistics\<close>

lemma fval_nan_right [simp]: "fdiv a NaN = NaN" "fadd a NaN = NaN" "fmul a NaN = NaN"
  by (cases a; simp)+














section \<open>Claims about the MACD strategy\<close>

lemma length_ewm_go: "length (ewm_go a w ow xs) = length xs"
  by (induction xs arbitrary: w ow) (simp_all add: Let_def)

lemma length_ewm_mean: "length (ewm_mean n xs) = length xs"
  by (cases xs) (simp_all add: ewm_mean_def length_ewm_go)

lemma ewm_mean_Nil_iff: "ewm_mean n xs = [] \<longleftrightarrow> xs = []"
  using length_ewm_mean[of n xs] by (metis length_0_conv)

lemma length_shift1: "length (shift1 xs) = length xs"
  by (cases xs) (simp_all add: shift1_def)

text \<open>On the first row both crossing masks are false: the shifted series start with
  not-a-number, and every comparison with it is false.\<close>

lemma cross_first:
  assumes "length dif = length dea" "dif \<noteq> []" "length sg = length dif" "sg ! 0 = Fin 0"
  shows "loc_set
           (loc_set sg (map2 (\<and>) (map2 fgt dif dea) (map2 fle (shift1 dif) (shift1 dea)))
              (Fin 1))
           (map2 (\<and>) (map2 flt dif dea) (map2 fge (shift1 dif) (shift1 dea))) (Fin (- 1)) ! 0
         = Fin 0"
proof -
  from assms obtain a as b bs s ss where "dif = a # as" "dea = b # bs" "sg = s # ss"
    by (cases dif; cases dea; cases sg) auto
  then show ?thesis using assms(4)
    by (simp add: loc_set_def shift1_def fle_def fge_def)
qed

text \<open>
  C9. For every non-empty price series (a frame with a \<open>close\<close> column as long as its
  index), \<open>macd_strategy\<close> returns a frame whose \<open>signal\<close> column has one value per row,
  and the value of the first row is 0.
\<close>

theorem macd_first_signal:
  assumes "cols historical_data ''close'' = Some close" "close \<noteq> []"
    and "length (index historical_data) = length close"
  shows "\<exists>f sg. macd_strategy historical_data = Inr f \<and> cols f ''signal'' = Some sg \<and>
           length sg = length close \<and> sg ! 0 = Fin 0"
proof -
  let ?dif = "map2 fsub (ewm_mean 12 close) (ewm_mean 26 close)"
  let ?dea = "ewm_mean 9 ?dif"
  let ?sg = "replicate (length close) (Fin 0)"
  have l: "length ?dif = length ?dea" "?dif \<noteq> []" "length ?sg = length ?dif" "?sg ! 0 = Fin 0"
    using assms(2) by (auto simp: length_ewm_mean ewm_mean_Nil_iff)
  have len: "length (loc_set
      (loc_set ?sg (map2 (\<and>) (map2 fgt ?dif ?dea) (map2 fle (shift1 ?dif) (shift1 ?dea)))
         (Fin 1))
      (map2 (\<and>) (map2 flt ?dif ?dea) (map2 fge (shift1 ?dif) (shift1 ?dea))) (Fin (- 1)))
      = length close"
    by (simp add: loc_set_def length_ewm_mean length_shift1)
  show ?thesis
    using cross_first[OF l] len assms
    by (simp add: macd_strategy_def calculate_macd_def getcol_def setcol_def Let_def)
qed

theorem macd_first_signal_witness:
  "\<exists>f sg. macd_strategy ex_prices_only = Inr f \<and> cols f ''signal'' = Some sg \<and>
     length sg = 2 \<and> sg ! 0 = Fin 0"
  using macd_first_signal[of ex_prices_only "[Fin 10, Fin 12]"]
  by (auto simp: ex_prices_only_def)

section \<open>Claims about the indicators\<close>

lemmas series_defs =
  rolling_mean_def window_mean_def isfinite_def fsum_def diff_def shift1_def fsub_def
  fgt_def rsi_gain_def rsi_loss_def rsi_of_def getcol_def str_int_def Let_def upt_rec

lemma length_diff: "length (diff xs) = length xs"
  by (simp add: diff_def length_shift1)

lemma length_rolling_mean: "rolling_mean w xs = Inr ys \<Longrightarrow> length ys = length xs"
  by (auto simp: rolling_mean_def split: if_splits)

lemma rolling_mean_nth:
  "rolling_mean w xs = Inr ys \<Longrightarrow> i < length xs \<Longrightarrow>
     ys ! i = window_mean (nat w) (take (Suc i) xs)"
  by (auto simp: rolling_mean_def split: if_splits)

lemma rolling_mean_negative: "w < 0 \<Longrightarrow> rolling_mean w xs = Inl ValueError"
  by (simp add: rolling_mean_def)

lemma rolling_mean_empty: "0 \<le> w \<Longrightarrow> rolling_mean w [] = Inr []"
  by (simp add: rolling_mean_def)

lemma rolling_mean_zero: "rolling_mean 0 xs = Inr (replicate (length xs) NaN)"
  by (simp add: rolling_mean_def window_mean_def map_replicate_const)

lemma index_setcol: "index (setcol f k xs) = index f"
  by (simp add: setcol_def)

text \<open>A sum of finite values that are not negative is finite and not negative.\<close>

lemma foldl_fadd_nonneg:
  assumes "\<forall>x \<in> set xs. \<exists>y. x = Fin y \<and> 0 \<le> y" "0 \<le> a"
  shows "\<exists>t. foldl fadd (Fin a) xs = Fin t \<and> 0 \<le> t"
  using assms
proof (induction xs arbitrary: a)
  case Nil
  then show ?case by simp
next
  case (Cons x xs)
  from Cons.prems(1) obtain y where y: "x = Fin y" "0 \<le> y" by auto
  have "\<exists>t. foldl fadd (Fin (a + y)) xs = Fin t \<and> 0 \<le> t"
    using Cons.prems y by (intro Cons.IH) auto
  then show ?case using y by simp
qed

lemma window_mean_nonneg:
  assumes "\<forall>x \<in> set xs. isfinite x \<longrightarrow> (\<exists>y. x = Fin y \<and> 0 \<le> y)"
  shows "window_mean w xs = NaN \<or> (\<exists>g. window_mean w xs = Fin g \<and> 0 \<le> g)"
proof -
  let ?obs = "filter isfinite (drop (length xs - w) xs)"
  have "\<forall>x \<in> set ?obs. \<exists>y. x = Fin y \<and> 0 \<le> y"
    using assms by (auto dest: in_set_dropD)
  from foldl_fadd_nonneg[OF this, of 0]
  obtain t where t: "foldl fadd (Fin 0) ?obs = Fin t" "0 \<le> t" by auto
  show ?thesis
  proof (cases "w \<le> length ?obs \<and> ?obs \<noteq> []")
    case True
    then have "0 < length ?obs" by simp
    then have "window_mean w xs = Fin (t / real (length ?obs))"
      using True t by (simp add: window_mean_def fsum_def Let_def)
    moreover have "0 \<le> t / real (length ?obs)" using t(2) by simp
    ultimately show ?thesis by blast
  next
    case False
    then show ?thesis by (auto simp add: window_mean_def Let_def)
  qed
qed

lemma rsi_gain_nonneg:
  assumes "rsi_gain close period = Inr gain" "i < length close"
  shows "gain ! i = NaN \<or> (\<exists>g. gain ! i = Fin g \<and> 0 \<le> g)"
proof -
  let ?G = "map (\<lambda>d. if fgt d (Fin 0) then d else Fin 0) (diff close)"
  have i: "i < length ?G" using assms(2) by (simp add: length_diff)
  have g: "gain ! i = window_mean (nat period) (take (Suc i) ?G)"
    using assms(1) i unfolding rsi_gain_def by (rule rolling_mean_nth)
  have "\<forall>x \<in> set (take (Suc i) ?G). isfinite x \<longrightarrow> (\<exists>y. x = Fin y \<and> 0 \<le> y)"
  proof (intro ballI impI)
    fix x assume "x \<in> set (take (Suc i) ?G)" "isfinite x"
    then have "x \<in> set ?G" by (auto dest: in_set_takeD)
    then obtain d where "x = (if fgt d (Fin 0) then d else Fin 0)"
      unfolding set_map by blast
    with \<open>isfinite x\<close> show "\<exists>y. x = Fin y \<and> 0 \<le> y"
      by (cases d) (auto simp: fgt_def isfinite_def split: if_splits)
  qed
  from window_mean_nonneg[OF this] g show ?thesis by simp
qed

lemma rsi_of_zero_loss:
  assumes "g = NaN \<or> (\<exists>x. g = Fin x \<and> 0 \<le> x)"
  shows "rsi_of g (Fin 0) = (if fgt g (Fin 0) then Fin 100 else NaN)"
  using assms by (auto simp: rsi_of_def fgt_def fsub_def)

text \<open>
  C6, as amended. On a row where the trailing mean of the losses is exactly 0, the RSI
  that \<open>calculate_rsi\<close> reports is 100 when the trailing mean of the gains is positive, and
  not-a-number otherwise (the mean of the gains is 0 too, as on a constant series, or is
  itself not-a-number).
\<close>

theorem rsi_zero_loss:
  assumes "cols historical_data ''close'' = Some close"
    and "rsi_gain close period = Inr gain" "rsi_loss close period = Inr loss"
    and "i < length close" "loss ! i = Fin 0"
  shows "\<exists>f rsi. calculate_rsi historical_data period = Inr f \<and>
           cols f (''RSI'' @ str_int period) = Some rsi \<and>
           rsi ! i = (if fgt (gain ! i) (Fin 0) then Fin 100 else NaN)"
proof -
  have lg: "length gain = length close" and ll: "length loss = length close"
    using assms(2,3)
    by (auto simp: rsi_gain_def rsi_loss_def length_diff dest!: length_rolling_mean)
  have "map2 rsi_of gain loss ! i = rsi_of (gain ! i) (Fin 0)"
    using lg ll assms(4,5) by simp
  also have "\<dots> = (if fgt (gain ! i) (Fin 0) then Fin 100 else NaN)"
    by (rule rsi_of_zero_loss[OF rsi_gain_nonneg[OF assms(2,4)]])
  finally show ?thesis using assms(1,2,3)
    by (simp add: calculate_rsi_def getcol_def setcol_def)
qed

theorem rsi_zero_loss_witness:
  "\<exists>f rsi. calculate_rsi ex_rising 2 = Inr f \<and> cols f ''RSI2'' = Some rsi \<and> rsi ! 2 = Fin 100"
proof -
  have g: "rsi_gain [Fin 10, Fin 11, Fin 12] 2 = Inr [NaN, Fin (1 / 2), Fin 1]"
    and l: "rsi_loss [Fin 10, Fin 11, Fin 12] 2 = Inr [NaN, Fin 0, Fin 0]"
    by (simp_all add: series_defs)
  from rsi_zero_loss[of ex_rising "[Fin 10, Fin 11, Fin 12]" 2, OF _ g l, of 2]
  show ?thesis by (simp add: ex_rising_def str_int_def fgt_def)
qed

text \<open>
  C6 as stated fails on a constant series: with closes 10, 10, 10 and period 2 the window
  is filled from the second row on, every delta in it is 0, the mean of the losses is
  exactly 0, and the RSI of every row is not-a-number.
\<close>

theorem rsi_constant_counterexample:
  "rsi_loss [Fin 10, Fin 10, Fin 10] 2 = Inr [NaN, Fin 0, Fin 0] \<and>
   calculate_rsi ex_constant 2 = Inr (setcol ex_constant ''RSI2'' [NaN, NaN, NaN])"
  by (simp add: calculate_rsi_def ex_constant_def series_defs)

lemma rolling_mean_nonneg:
  "0 \<le> w \<Longrightarrow> \<exists>ys. rolling_mean w xs = Inr ys \<and> length ys = length xs"
  by (simp add: rolling_mean_def)

text \<open>With windows that are not negative the loop of \<open>calculate_ma\<close> ends on every
  series, and every column it sets has one value per row.\<close>

lemma calculate_ma_loop_nonneg:
  assumes "cols historical_data ''close'' = Some close" "\<forall>p \<in> set periods. 0 \<le> p"
  shows "\<exists>f. calculate_ma_loop historical_data result periods = Inr f \<and>
           index f = index result \<and>
           (\<forall>p \<in> set periods. \<exists>ma. cols f (''MA'' @ str_int p) = Some ma \<and>
                                     length ma = length close) \<and>
           (\<forall>k xs. cols result k = Some xs \<and> length xs = length close \<longrightarrow>
                    (\<exists>ys. cols f k = Some ys \<and> length ys = length close))"
  using assms(2)
proof (induction periods arbitrary: result)
  case Nil
  then show ?case by simp
next
  case (Cons p periods)
  from Cons.prems have p: "0 \<le> p" and rest: "\<forall>q \<in> set periods. 0 \<le> q" by auto
  from rolling_mean_nonneg[OF p, of close] obtain ma
    where ma: "rolling_mean p close = Inr ma" "length ma = length close" by blast
  let ?res = "setcol result (''MA'' @ str_int p) ma"
  from Cons.IH[OF rest, of ?res] obtain f where f:
    "calculate_ma_loop historical_data ?res periods = Inr f"
    "index f = index ?res"
    "\<forall>q \<in> set periods. \<exists>m. cols f (''MA'' @ str_int q) = Some m \<and> length m = length close"
    "\<forall>k xs. cols ?res k = Some xs \<and> length xs = length close \<longrightarrow>
            (\<exists>ys. cols f k = Some ys \<and> length ys = length close)"
    by blast
  have run: "calculate_ma_loop historical_data result (p # periods) = Inr f"
    using assms(1) ma(1) f(1) by (simp add: getcol_def)
  have idx: "index f = index result" using f(2) by (simp add: setcol_def)
  have "cols ?res (''MA'' @ str_int p) = Some ma" by (simp add: setcol_def)
  with f(4) ma(2)
  have pcol: "\<exists>m. cols f (''MA'' @ str_int p) = Some m \<and> length m = length close"
    by blast
  have old: "\<exists>ys. cols f k = Some ys \<and> length ys = length close"
    if "cols result k = Some xs \<and> length xs = length close" for k xs
  proof (cases "k = ''MA'' @ str_int p")
    case True
    then show ?thesis using pcol by simp
  next
    case False
    then have "cols ?res k = Some xs" using that by (simp add: setcol_def)
    with f(4) that show ?thesis by blast
  qed
  show ?case using run idx pcol f(3) old by auto
qed

lemma calculate_rsi_nonneg:
  assumes "cols historical_data ''close'' = Some close" "0 \<le> period"
  shows "\<exists>f rsi. calculate_rsi historical_data period = Inr f \<and>
           index f = index historical_data \<and>
           cols f (''RSI'' @ str_int period) = Some rsi \<and> length rsi = length close"
  using assms
  by (simp add: calculate_rsi_def getcol_def setcol_def rsi_gain_def rsi_loss_def
                rolling_mean_def diff_def length_shift1)

lemma calculate_macd_returns:
  assumes "cols historical_data ''close'' = Some close"
  shows "\<exists>f m. calculate_macd historical_data = Inr f \<and> index f = index historical_data \<and>
           cols f ''MACD'' = Some m \<and> length m = length close"
  using assms
  by (simp add: calculate_macd_def getcol_def setcol_def Let_def length_ewm_mean)

lemma calculate_ma_loop_negative:
  assumes "cols historical_data ''close'' = Some close" "\<exists>p \<in> set periods. p < 0"
  shows "calculate_ma_loop historical_data result periods = Inl ValueError"
  using assms(2)
proof (induction periods arbitrary: result)
  case Nil
  then show ?case by simp
next
  case (Cons p periods)
  show ?case
  proof (cases "p < 0")
    case True
    then show ?thesis using assms(1) by (simp add: getcol_def rolling_mean_negative)
  next
    case False
    with Cons.prems have "\<exists>q \<in> set periods. q < 0" by auto
    from Cons.IH[OF this] False assms(1) show ?thesis
      by (simp add: getcol_def rolling_mean_def)
  qed
qed

text \<open>
  C7, as amended. For a price series with a \<open>close\<close> column the indicator operations
  fail exactly when a window or period is negative. \<open>calculate_ma\<close> with windows that
  are not negative, \<open>calculate_macd\<close>, and \<open>calculate_rsi\<close> with a period that is not
  negative return, on every series, a frame with the same rows and one indicator value
  per row; so a series with no row gives a frame with no row and no error, and a window
  or period of 0 is accepted and gives a column that is not-a-number on every row. A
  negative window or period fails with the ValueError of the rolling window, and no
  frame is returned.
\<close>

theorem indicators_empty_and_periods:
  assumes "cols historical_data ''close'' = Some close"
  shows "((\<forall>p \<in> set periods. 0 \<le> p) \<longrightarrow>
            (\<exists>f. calculate_ma historical_data periods = Inr f \<and>
                 index f = index historical_data \<and>
                 (\<forall>p \<in> set periods. \<exists>ma. cols f (''MA'' @ str_int p) = Some ma \<and>
                                          length ma = length close))) \<and>
         ((\<exists>p \<in> set periods. p < 0) \<longrightarrow> calculate_ma historical_data periods = Inl ValueError) \<and>
         (\<exists>f m. calculate_macd historical_data = Inr f \<and> index f = index historical_data \<and>
                 cols f ''MACD'' = Some m \<and> length m = length close) \<and>
         (0 \<le> period \<longrightarrow>
            (\<exists>f rsi. calculate_rsi historical_data period = Inr f \<and>
                 index f = index historical_data \<and>
                 cols f (''RSI'' @ str_int period) = Some rsi \<and> length rsi = length close)) \<and>
         (period < 0 \<longrightarrow> calculate_rsi historical_data period = Inl ValueError) \<and>
         calculate_ma historical_data [0] =
           Inr (setcol historical_data ''MA0'' (replicate (length close) NaN)) \<and>
         calculate_rsi historical_data 0 =
           Inr (setcol historical_data ''RSI0'' (replicate (length close) NaN)) \<and>
         (close = [] \<and> 0 \<le> period \<longrightarrow>
            calculate_rsi historical_data period =
              Inr (setcol historical_data (''RSI'' @ str_int period) [])) \<and>
         (close = [] \<longrightarrow>
            (\<exists>f. calculate_macd historical_data = Inr f \<and> index f = index historical_data \<and>
                 cols f ''MACD'' = Some []))"
proof (intro conjI impI)
  show "\<exists>f. calculate_ma historical_data periods = Inr f \<and> index f = index historical_data \<and>
          (\<forall>p \<in> set periods. \<exists>ma. cols f (''MA'' @ str_int p) = Some ma \<and>
                                   length ma = length close)"
    if "\<forall>p \<in> set periods. 0 \<le> p"
    using calculate_ma_loop_nonneg[OF assms that, of historical_data]
    unfolding calculate_ma_def by blast
  show "calculate_ma historical_data periods = Inl ValueError" if "\<exists>p \<in> set periods. p < 0"
    using calculate_ma_loop_negative[OF assms that] by (simp add: calculate_ma_def)
  show "\<exists>f m. calculate_macd historical_data = Inr f \<and> index f = index historical_data \<and>
          cols f ''MACD'' = Some m \<and> length m = length close"
    by (rule calculate_macd_returns[OF assms])
  show "\<exists>f rsi. calculate_rsi historical_data period = Inr f \<and>
          index f = index historical_data \<and>
          cols f (''RSI'' @ str_int period) = Some rsi \<and> length rsi = length close"
    if "0 \<le> period"
    by (rule calculate_rsi_nonneg[OF assms that])
  show "calculate_rsi historical_data period = Inl ValueError" if "period < 0"
    using that assms
    by (simp add: calculate_rsi_def getcol_def rsi_gain_def rolling_mean_negative)
  show "calculate_ma historical_data [0] =
          Inr (setcol historical_data ''MA0'' (replicate (length close) NaN))"
    using assms by (simp add: calculate_ma_def getcol_def rolling_mean_zero str_int_def)
  show "calculate_rsi historical_data 0 =
          Inr (setcol historical_data ''RSI0'' (replicate (length close) NaN))"
    using assms length_diff[of close]
    by (simp add: calculate_rsi_def getcol_def rsi_gain_def rsi_loss_def rolling_mean_zero
                  str_int_def rsi_of_def fsub_def map_replicate_const)
  show "calculate_rsi historical_data period =
          Inr (setcol historical_data (''RSI'' @ str_int period) [])"
    if "close = [] \<and> 0 \<le> period"
    using that assms
    by (simp add: calculate_rsi_def getcol_def rsi_gain_def rsi_loss_def diff_def shift1_def
                  rolling_mean_empty)
  show "\<exists>f. calculate_macd historical_data = Inr f \<and> index f = index historical_data \<and>
          cols f ''MACD'' = Some []" if "close = []"
    using that assms by (simp add: calculate_macd_def getcol_def setcol_def ewm_mean_def)
qed

theorem indicators_empty_and_periods_witness:
  "(\<exists>f. calculate_ma ex_empty [5, 20] = Inr f \<and> index f = []) \<and>
   (\<exists>f. calculate_macd ex_empty = Inr f \<and> index f = [] \<and> cols f ''MACD'' = Some []) \<and>
   calculate_rsi ex_empty 14 = Inr (setcol ex_empty ''RSI14'' []) \<and>
   (\<exists>f. calculate_ma ex_constant [5, 20] = Inr f \<and> index f = [1, 2, 3]) \<and>
   (\<exists>f rsi. calculate_rsi ex_constant 14 = Inr f \<and> cols f ''RSI14'' = Some rsi \<and>
        length rsi = 3) \<and>
   calculate_ma ex_constant [5, - 1] = Inl ValueError \<and>
   calculate_rsi ex_constant (- 3) = Inl ValueError"
  using indicators_empty_and_periods[of ex_empty "[]" "[5, 20]" 14]
        indicators_empty_and_periods[of ex_constant "[Fin 10, Fin 10, Fin 10]" "[5, 20]" 14]
        indicators_empty_and_periods[of ex_constant "[Fin 10, Fin 10, Fin 10]" "[5, - 1]" "- 3"]
  by (auto simp: ex_empty_def ex_constant_def str_int_def)

text \<open>
  C7 as stated fails: on the series with no row \<open>calculate_ma\<close> with window 5 returns the
  frame with an empty \<open>MA5\<close> column, and on a series of three rows \<open>calculate_rsi\<close> with
  period 0 returns the frame with an \<open>RSI0\<close> column of not-a-number; neither raises.
\<close>

theorem indicators_no_error_counterexample:
  "calculate_ma ex_empty [5] = Inr (setcol ex_empty ''MA5'' []) \<and>
   calculate_rsi ex_constant 0 = Inr (setcol ex_constant ''RSI0'' [NaN, NaN, NaN])"
  by (simp add: calculate_ma_def calculate_rsi_def ex_empty_def ex_constant_def series_defs)

end
